theory Spec2Isabelle
  imports Complex_Main
begin

section \<open>Strings, time and identities\<close>

text \<open>
  Go strings are byte sequences; they are modelled as \<^typ>\<open>string\<close>. The standard
  library functions \<^verbatim>\<open>strings.TrimSpace\<close>, \<^verbatim>\<open>strings.ToLower\<close> and
  \<^verbatim>\<open>strings.Contains\<close> are modelled on ASCII text: the white space characters are
  tab, line feed, vertical tab, form feed, carriage return and space, and only the letters
  \<open>A\<close> to \<open>Z\<close> have a lower-case form.

  \<^verbatim>\<open>time.Now()\<close> and the random identity of \<^verbatim>\<open>generateID()\<close> are inputs of the
  model: every function that reads the clock takes the instant \<open>now\<close> as an argument, and
  every constructor takes the generated identity.
\<close>

type_synonym time = nat

definition isSpace :: "char \<Rightarrow> bool" where
  "isSpace c = (c \<in> set [CHR 0x09, CHR 0x0A, CHR 0x0B, CHR 0x0C, CHR 0x0D, CHR '' ''])"

definition TrimSpace :: "string \<Rightarrow> string" where
  "TrimSpace s = rev (dropWhile isSpace (rev (dropWhile isSpace s)))"

definition upperLetters :: string where
  "upperLetters = ''ABCDEFGHIJKLMNOPQRSTUVWXYZ''"

definition lowerLetters :: string where
  "lowerLetters = ''abcdefghijklmnopqrstuvwxyz''"

definition digits :: string where
  "digits = ''0123456789''"

definition toLowerChar :: "char \<Rightarrow> char" where
  "toLowerChar c = (case map_of (zip upperLetters lowerLetters) c of Some d \<Rightarrow> d | None \<Rightarrow> c)"

definition ToLower :: "string \<Rightarrow> string" where
  "ToLower s = map toLowerChar s"

fun Contains :: "string \<Rightarrow> string \<Rightarrow> bool" where
  "Contains [] substr = (substr = [])"
| "Contains (c # cs) substr = (take (length substr) (c # cs) = substr \<or> Contains cs substr)"

section \<open>Teacher aggregate (internal/teacherwishlist/model.go)\<close>

type_synonym TeacherStatus = string

definition TeacherStatusPending :: TeacherStatus where
  "TeacherStatusPending = ''pending''"

definition TeacherStatusApproved :: TeacherStatus where
  "TeacherStatusApproved = ''approved''"

definition TeacherStatusRejected :: TeacherStatus where
  "TeacherStatusRejected = ''rejected''"

definition IsValid :: "TeacherStatus \<Rightarrow> bool" where
  "IsValid ts = (ts = TeacherStatusPending \<or> ts = TeacherStatusApproved \<or> ts = TeacherStatusRejected)"

record Teacher =
  ID :: string
  Email :: string
  FirstName :: string
  LastName :: string
  SchoolID :: string
  GradeLevel :: string
  WishlistURL :: string
  Status :: TeacherStatus
  CreatedAt :: time
  UpdatedAt :: time

text \<open>The error values of the package, one constructor for each message of the source.\<close>

datatype teacher_error =
    EmailRequired
  | EmailFormatInvalid
  | FirstNameRequired
  | LastNameRequired
  | SchoolIDRequired
  | InvalidTeacherStatus
  | InvalidURLFormat
  | WishlistMustUseHTTPS
  | WishlistMustBeFromAmazon
  | TeacherAlreadyApproved
  | CannotApproveRejected
  | MustHaveWishlistURL
  | TeacherAlreadyRejected
  | CannotRejectApproved

text \<open>
  \<^verbatim>\<open>emailRegex = ^[a-zA-Z0-9._%+-]+@[a-zA-Z0-9.-]+\.[a-zA-Z]{2,}$\<close>.
  Neither character class contains \<open>@\<close>, so a matching string has exactly one \<open>@\<close>;
  the last group has no dot, so it is what follows the last dot of the domain part.
\<close>

definition emailLocalChar :: "char \<Rightarrow> bool" where
  "emailLocalChar c = (c \<in> set (lowerLetters @ upperLetters @ digits @ ''._%+-''))"

definition emailDomainChar :: "char \<Rightarrow> bool" where
  "emailDomainChar c = (c \<in> set (lowerLetters @ upperLetters @ digits @ ''.-''))"

definition isLetter :: "char \<Rightarrow> bool" where
  "isLetter c = (c \<in> set (lowerLetters @ upperLetters))"

definition emailRegex_MatchString :: "string \<Rightarrow> bool" where
  "emailRegex_MatchString s =
     (let localPart = takeWhile (\<lambda>c. c \<noteq> CHR ''@'') s;
          rest = dropWhile (\<lambda>c. c \<noteq> CHR ''@'') s;
          dom = tl rest;
          tld = rev (takeWhile (\<lambda>c. c \<noteq> CHR ''.'') (rev dom));
          untilDot = dropWhile (\<lambda>c. c \<noteq> CHR ''.'') (rev dom);
          host = rev (tl untilDot)
      in localPart \<noteq> [] \<and> list_all emailLocalChar localPart \<and> rest \<noteq> [] \<and>
         untilDot \<noteq> [] \<and>
         host \<noteq> [] \<and> list_all emailDomainChar host \<and>
         2 \<le> length tld \<and> list_all isLetter tld)"

text \<open>
  \<^verbatim>\<open>url.Parse\<close> belongs to the Go standard library. The model takes it as the
  parameter \<open>parse\<close>: \<open>None\<close> is a parse error, \<open>Some u\<close> the parsed URL, of which the
  source reads the scheme and the host.
\<close>

record URL =
  Scheme :: string
  Host :: string

type_synonym url_parser = "string \<Rightarrow> URL option"

definition validateWishlistURL :: "url_parser \<Rightarrow> string \<Rightarrow> teacher_error option" where
  "validateWishlistURL parse wishlistURL =
     (if wishlistURL = [] then None
      else case parse wishlistURL of
             None \<Rightarrow> Some InvalidURLFormat
           | Some parsedURL \<Rightarrow>
               if Scheme parsedURL = [] \<or> Host parsedURL = [] then Some InvalidURLFormat
               else if Scheme parsedURL \<noteq> ''https'' then Some WishlistMustUseHTTPS
               else if \<not> Contains (Host parsedURL) ''amazon.com'' \<and>
                       \<not> Contains (Host parsedURL) ''amzn.to''
                    then Some WishlistMustBeFromAmazon
               else None)"

definition validateInvariants :: "url_parser \<Rightarrow> Teacher \<Rightarrow> teacher_error option" where
  "validateInvariants parse t =
     (if Email t = [] then Some EmailRequired
      else if \<not> emailRegex_MatchString (Email t) then Some EmailFormatInvalid
      else if FirstName t = [] then Some FirstNameRequired
      else if LastName t = [] then Some LastNameRequired
      else if SchoolID t = [] then Some SchoolIDRequired
      else if \<not> IsValid (Status t) then Some InvalidTeacherStatus
      else if WishlistURL t \<noteq> [] then validateWishlistURL parse (WishlistURL t)
      else None)"

definition NewTeacher ::
  "url_parser \<Rightarrow> string \<Rightarrow> time \<Rightarrow> string \<Rightarrow> string \<Rightarrow> string \<Rightarrow> string \<Rightarrow> string
     \<Rightarrow> teacher_error + Teacher" where
  "NewTeacher parse newID now email firstName lastName schoolID gradeLevel =
     (let teacher = \<lparr> ID = newID,
                       Email = TrimSpace (ToLower email),
                       FirstName = TrimSpace firstName,
                       LastName = TrimSpace lastName,
                       SchoolID = TrimSpace schoolID,
                       GradeLevel = TrimSpace gradeLevel,
                       WishlistURL = [],
                       Status = TeacherStatusPending,
                       CreatedAt = now,
                       UpdatedAt = now \<rparr>
      in case validateInvariants parse teacher of
           Some err \<Rightarrow> Inl err
         | None \<Rightarrow> Inr teacher)"

text \<open>
  A method with a pointer receiver that returns an \<^verbatim>\<open>error\<close> becomes a function that
  returns the error (\<open>None\<close> for \<^verbatim>\<open>nil\<close>) together with the receiver as the call
  leaves it.
\<close>

definition UpdateWishlistURL ::
  "url_parser \<Rightarrow> time \<Rightarrow> string \<Rightarrow> Teacher \<Rightarrow> teacher_error option \<times> Teacher" where
  "UpdateWishlistURL parse now wishlistURL t =
     (let url = TrimSpace wishlistURL in
      case validateWishlistURL parse url of
        Some err \<Rightarrow> (Some err, t)
      | None \<Rightarrow>
          (let t' = t\<lparr> WishlistURL := url, UpdatedAt := now \<rparr>
           in (validateInvariants parse t', t')))"

definition Approve :: "url_parser \<Rightarrow> time \<Rightarrow> Teacher \<Rightarrow> teacher_error option \<times> Teacher" where
  "Approve parse now t =
     (if Status t = TeacherStatusApproved then (Some TeacherAlreadyApproved, t)
      else if Status t = TeacherStatusRejected then (Some CannotApproveRejected, t)
      else if WishlistURL t = [] then (Some MustHaveWishlistURL, t)
      else (let t' = t\<lparr> Status := TeacherStatusApproved, UpdatedAt := now \<rparr>
            in (validateInvariants parse t', t')))"

definition Reject :: "url_parser \<Rightarrow> time \<Rightarrow> Teacher \<Rightarrow> teacher_error option \<times> Teacher" where
  "Reject parse now t =
     (if Status t = TeacherStatusRejected then (Some TeacherAlreadyRejected, t)
      else if Status t = TeacherStatusApproved then (Some CannotRejectApproved, t)
      else (let t' = t\<lparr> Status := TeacherStatusRejected, UpdatedAt := now \<rparr>
            in (validateInvariants parse t', t')))"

definition UpdateProfile ::
  "url_parser \<Rightarrow> time \<Rightarrow> string \<Rightarrow> string \<Rightarrow> string \<Rightarrow> Teacher \<Rightarrow> teacher_error option \<times> Teacher" where
  "UpdateProfile parse now firstName lastName gradeLevel t =
     (let t' = t\<lparr> FirstName := TrimSpace firstName,
                   LastName := TrimSpace lastName,
                   GradeLevel := TrimSpace gradeLevel,
                   UpdatedAt := now \<rparr>
      in (validateInvariants parse t', t'))"

text \<open>
  A stand-in for \<^verbatim>\<open>url.Parse\<close> used to run the model on examples: it reads
  \<open>scheme://host/path\<close> and rejects a string without \<open>://\<close>.
\<close>

fun splitScheme :: "string \<Rightarrow> string \<Rightarrow> (string \<times> string) option" where
  "splitScheme acc [] = None"
| "splitScheme acc (c # cs) =
     (if take 3 (c # cs) = ''://'' then Some (rev acc, drop 3 (c # cs))
      else splitScheme (c # acc) cs)"

definition exampleParse :: url_parser where
  "exampleParse s =
     (case splitScheme [] s of
        None \<Rightarrow> None
      | Some (sch, rest) \<Rightarrow>
          Some \<lparr> Scheme = sch, Host = takeWhile (\<lambda>c. c \<noteq> CHR ''/'') rest \<rparr>)"

definition exampleTeacher :: Teacher where
  "exampleTeacher =
     \<lparr> ID = ''t-1'', Email = ''teacher@example.com'', FirstName = ''John'', LastName = ''Doe'',
       SchoolID = ''school-123'', GradeLevel = ''5th Grade'',
       WishlistURL = ''https://www.amazon.com/hz/wishlist/ls/ABC123'',
       Status = TeacherStatusPending, CreatedAt = 1, UpdatedAt = 1 \<rparr>"

section \<open>Value objects (internal/shared/domain)\<close>

text \<open>
  The \<^verbatim>\<open>float64\<close> coordinates are modelled as real numbers: the source only compares
  them with constants, and the values that are not numbers are outside the model.
\<close>

datatype domain_error =
    LatitudeOutOfRange
  | LongitudeOutOfRange
  | CityRequired
  | StateRequired
  | StateNotTwoLetters
  | ZipCodeFormat

record Location =
  Latitude :: real
  Longitude :: real
  County :: string
  Region :: string

definition Location_validate :: "Location \<Rightarrow> domain_error option" where
  "Location_validate l =
     (if Latitude l < - 90 \<or> Latitude l > 90 then Some LatitudeOutOfRange
      else if Longitude l < - 180 \<or> Longitude l > 180 then Some LongitudeOutOfRange
      else None)"

definition NewLocation :: "real \<Rightarrow> real \<Rightarrow> string \<Rightarrow> string \<Rightarrow> domain_error + Location" where
  "NewLocation latitude longitude county region =
     (let loc = \<lparr> Latitude = latitude, Longitude = longitude,
                   County = TrimSpace county, Region = TrimSpace region \<rparr>
      in case Location_validate loc of
           Some err \<Rightarrow> Inl err
         | None \<Rightarrow> Inr loc)"

record Address =
  Street :: string
  City :: string
  State :: string
  ZipCode :: string
  Location :: Location

definition isDigit :: "char \<Rightarrow> bool" where
  "isDigit c = (c \<in> set digits)"

text \<open>\<^verbatim>\<open>zipRegex = ^\d{5}(-\d{4})?$\<close>: five digits, or five digits, a hyphen and four digits.\<close>

definition zipRegex_MatchString :: "string \<Rightarrow> bool" where
  "zipRegex_MatchString z =
     ((length z = 5 \<and> list_all isDigit z) \<or>
      (length z = 10 \<and> list_all isDigit (take 5 z) \<and> take 1 (drop 5 z) = ''-'' \<and>
       list_all isDigit (drop 6 z)))"

definition Address_validate :: "Address \<Rightarrow> domain_error option" where
  "Address_validate a =
     (if City a = [] then Some CityRequired
      else if State a = [] then Some StateRequired
      else if length (State a) \<noteq> 2 then Some StateNotTwoLetters
      else if ZipCode a \<noteq> [] \<and> \<not> zipRegex_MatchString (ZipCode a) then Some ZipCodeFormat
      else None)"

definition NewAddress ::
  "string \<Rightarrow> string \<Rightarrow> string \<Rightarrow> string \<Rightarrow> Location \<Rightarrow> domain_error + Address" where
  "NewAddress street city state zipCode location =
     (let addr = \<lparr> Street = TrimSpace street, City = TrimSpace city, State = TrimSpace state,
                    ZipCode = TrimSpace zipCode, Location = location \<rparr>
      in case Address_validate addr of
           Some err \<Rightarrow> Inl err
         | None \<Rightarrow> Inr addr)"

definition IsEmpty :: "Address \<Rightarrow> bool" where
  "IsEmpty a = (Street a = [] \<and> City a = [] \<and> State a = [] \<and> ZipCode a = [])"

section \<open>School aggregate (internal/schooldirectory/model.go)\<close>

record School =
  School_ID :: string
  Name :: string
  Address :: Address
  School_CreatedAt :: time
  School_UpdatedAt :: time

datatype school_error =
    SchoolNameEmpty
  | SchoolAddressEmpty
  | SchoolIDGenerationFailed
  | AddressMustHaveCity
  | AddressMustHaveState

text \<open>
  \<^verbatim>\<open>generateID\<close> of this package can fail when the random source does; \<open>generated\<close>
  is its outcome, \<open>None\<close> for the failure.
\<close>

definition NewSchool :: "string option \<Rightarrow> time \<Rightarrow> string \<Rightarrow> Address \<Rightarrow> school_error + School" where
  "NewSchool generated now name address =
     (let name' = TrimSpace name in
      if name' = [] then Inl SchoolNameEmpty
      else if IsEmpty address then Inl SchoolAddressEmpty
      else case generated of
             None \<Rightarrow> Inl SchoolIDGenerationFailed
           | Some newID \<Rightarrow>
               Inr \<lparr> School_ID = newID, Name = name', Address = address,
                     School_CreatedAt = now, School_UpdatedAt = now \<rparr>)"

definition UpdateName :: "time \<Rightarrow> string \<Rightarrow> School \<Rightarrow> school_error option \<times> School" where
  "UpdateName now name s =
     (let name' = TrimSpace name in
      if name' = [] then (Some SchoolNameEmpty, s)
      else (None, s\<lparr> Name := name', School_UpdatedAt := now \<rparr>))"

definition UpdateAddress :: "time \<Rightarrow> Address \<Rightarrow> School \<Rightarrow> school_error option \<times> School" where
  "UpdateAddress now address s =
     (if IsEmpty address then (Some SchoolAddressEmpty, s)
      else (None, s\<lparr> Address := address, School_UpdatedAt := now \<rparr>))"

definition GetUniqueKey :: "School \<Rightarrow> string" where
  "GetUniqueKey s =
     ToLower (TrimSpace (Name s)) @ ''|'' @
     ToLower (TrimSpace (City (Address s))) @ ''|'' @
     ToLower (TrimSpace (State (Address s)))"

definition ValidateInvariants :: "School \<Rightarrow> school_error option" where
  "ValidateInvariants s =
     (if TrimSpace (Name s) = [] then Some SchoolNameEmpty
      else if IsEmpty (Address s) then Some SchoolAddressEmpty
      else if TrimSpace (City (Address s)) = [] then Some AddressMustHaveCity
      else if TrimSpace (State (Address s)) = [] then Some AddressMustHaveState
      else None)"

section \<open>In-memory school repository (internal/schooldirectory/repository.go)\<close>

text \<open>
  The repository's maps hold pointers to \<^verbatim>\<open>School\<close> objects, and a caller keeps the
  pointer it saved or looked up, so a stored school can change under the repository.
  The model keeps the objects in a heap, a function from addresses to schools; address
  \<open>0\<close> is \<^verbatim>\<open>nil\<close>. The methods only read the heap. The mutex is not modelled: calls are
  sequential.
\<close>

type_synonym ptr = nat

type_synonym heap = "ptr \<Rightarrow> School"

record InMemorySchoolRepository =
  schools :: "string \<rightharpoonup> ptr"
  uniqueCombos :: "string \<rightharpoonup> ptr"

datatype repository_error =
    SchoolAlreadyExists string string string string
  | SchoolIDNotFound string
  | SchoolCombinationNotFound string string string
  | NilPointerDereference

definition NewInMemorySchoolRepository :: InMemorySchoolRepository where
  "NewInMemorySchoolRepository = \<lparr> schools = Map.empty, uniqueCombos = Map.empty \<rparr>"

text \<open>
  \<^verbatim>\<open>Save\<close> first deletes the index entry under the key of the school stored with the
  same identity, then checks the new key, and returns early on a collision.
\<close>

definition Save ::
  "heap \<Rightarrow> InMemorySchoolRepository \<Rightarrow> ptr \<Rightarrow> repository_error option \<times> InMemorySchoolRepository" where
  "Save h r school =
     (if school = 0 then (Some NilPointerDereference, r)
      else
        let combos = (case schools r (School_ID (h school)) of
                        Some existingSchool \<Rightarrow>
                          (uniqueCombos r)(GetUniqueKey (h existingSchool) := None)
                      | None \<Rightarrow> uniqueCombos r);
            comboKey = GetUniqueKey (h school);
            saved = \<lparr> schools = (schools r)(School_ID (h school) \<mapsto> school),
                      uniqueCombos = combos(comboKey \<mapsto> school) \<rparr>
        in case combos comboKey of
             Some existingSchool \<Rightarrow>
               if School_ID (h existingSchool) \<noteq> School_ID (h school)
               then (Some (SchoolAlreadyExists (Name (h school)) (City (Address (h school)))
                             (State (Address (h school))) (School_ID (h existingSchool))),
                     r\<lparr> uniqueCombos := combos \<rparr>)
               else (None, saved)
           | None \<Rightarrow> (None, saved))"

definition InMemory_Create ::
  "heap \<Rightarrow> InMemorySchoolRepository \<Rightarrow> ptr \<Rightarrow> repository_error option \<times> InMemorySchoolRepository" where
  "InMemory_Create h r school = Save h r school"

definition InMemory_Update ::
  "heap \<Rightarrow> InMemorySchoolRepository \<Rightarrow> ptr \<Rightarrow> repository_error option \<times> InMemorySchoolRepository" where
  "InMemory_Update h r school = Save h r school"

definition GetByID_Legacy :: "InMemorySchoolRepository \<Rightarrow> string \<Rightarrow> repository_error + ptr" where
  "GetByID_Legacy r ident =
     (case schools r ident of
        None \<Rightarrow> Inl (SchoolIDNotFound ident)
      | Some school \<Rightarrow> Inr school)"

definition InMemory_GetByID :: "InMemorySchoolRepository \<Rightarrow> string \<Rightarrow> repository_error + ptr" where
  "InMemory_GetByID r ident = GetByID_Legacy r ident"

definition FindByUniqueCombination ::
  "InMemorySchoolRepository \<Rightarrow> string \<Rightarrow> string \<Rightarrow> string \<Rightarrow> repository_error + ptr" where
  "FindByUniqueCombination r name city state =
     (let comboKey = ToLower (TrimSpace name) @ ''|'' @ ToLower (TrimSpace city) @ ''|'' @
                     ToLower (TrimSpace state)
      in case uniqueCombos r comboKey of
           None \<Rightarrow> Inl (SchoolCombinationNotFound name city state)
         | Some school \<Rightarrow> Inr school)"

definition InMemory_Delete ::
  "heap \<Rightarrow> InMemorySchoolRepository \<Rightarrow> string \<Rightarrow> repository_error option \<times> InMemorySchoolRepository" where
  "InMemory_Delete h r ident =
     (case schools r ident of
        None \<Rightarrow> (Some (SchoolIDNotFound ident), r)
      | Some school \<Rightarrow>
          (None, \<lparr> schools = (schools r)(ident := None),
                   uniqueCombos = (uniqueCombos r)(GetUniqueKey (h school) := None) \<rparr>))"

section \<open>Admin and User aggregates (internal/admin/model.go, internal/shared/domain/user.go)\<close>

datatype account_error =
    UsernameRequired
  | UsernameTooShort
  | PasswordHashRequired
  | PasswordHashCannotBeEmpty
  | PasswordCannotBeEmpty
  | FailedToGenerateHash

record Admin =
  Admin_ID :: string
  Username :: string
  PasswordHash :: string
  Admin_CreatedAt :: time

definition Admin_validateInvariants :: "Admin \<Rightarrow> account_error option" where
  "Admin_validateInvariants a =
     (if Username a = [] then Some UsernameRequired
      else if length (Username a) < 3 then Some UsernameTooShort
      else if PasswordHash a = [] then Some PasswordHashRequired
      else None)"

text \<open>\<^verbatim>\<open>NewAdmin(username, passwordHash string)\<close> as the source under internal/admin has it.\<close>

definition NewAdmin :: "string \<Rightarrow> time \<Rightarrow> string \<Rightarrow> string \<Rightarrow> account_error + Admin" where
  "NewAdmin newID now username passwordHash =
     (let admin = \<lparr> Admin_ID = newID, Username = TrimSpace username,
                     PasswordHash = passwordHash, Admin_CreatedAt = now \<rparr>
      in case Admin_validateInvariants admin of
           Some err \<Rightarrow> Inl err
         | None \<Rightarrow> Inr admin)"

definition Admin_UpdatePassword :: "string \<Rightarrow> Admin \<Rightarrow> account_error option \<times> Admin" where
  "Admin_UpdatePassword passwordHash a =
     (if passwordHash = [] then (Some PasswordHashCannotBeEmpty, a)
      else (let a' = a\<lparr> PasswordHash := passwordHash \<rparr>
            in (Admin_validateInvariants a', a')))"

text \<open>
  The bcrypt package is outside the repository. The model takes its two functions as a
  parameter: \<open>GenerateFromPassword\<close> gives the hash of a password (\<open>None\<close> when it
  reports an error; the salt it draws is part of the parameter), and
  \<open>CompareHashAndPassword hash password\<close> is true when the library reports no error.
\<close>

record bcrypt =
  GenerateFromPassword :: "string \<Rightarrow> string option"
  CompareHashAndPassword :: "string \<Rightarrow> string \<Rightarrow> bool"

record User =
  User_ID :: string
  User_Username :: string
  User_PasswordHash :: string
  User_CreatedAt :: time

definition HashPassword :: "bcrypt \<Rightarrow> string \<Rightarrow> account_error + string" where
  "HashPassword bc plainPassword =
     (if plainPassword = [] then Inl PasswordCannotBeEmpty
      else case GenerateFromPassword bc plainPassword of
             None \<Rightarrow> Inl FailedToGenerateHash
           | Some hash \<Rightarrow> Inr hash)"

definition User_validateInvariants :: "User \<Rightarrow> account_error option" where
  "User_validateInvariants u =
     (if User_Username u = [] then Some UsernameRequired
      else if length (User_Username u) < 3 then Some UsernameTooShort
      else if User_PasswordHash u = [] then Some PasswordHashRequired
      else None)"

definition NewUser :: "bcrypt \<Rightarrow> string \<Rightarrow> time \<Rightarrow> string \<Rightarrow> string \<Rightarrow> account_error + User" where
  "NewUser bc newID now username plainPassword =
     (case HashPassword bc plainPassword of
        Inl err \<Rightarrow> Inl err
      | Inr passwordHash \<Rightarrow>
          (let user = \<lparr> User_ID = newID, User_Username = TrimSpace username,
                         User_PasswordHash = passwordHash, User_CreatedAt = now \<rparr>
           in case User_validateInvariants user of
                Some err \<Rightarrow> Inl err
              | None \<Rightarrow> Inr user))"

definition NewUserWithHash :: "string \<Rightarrow> time \<Rightarrow> string \<Rightarrow> string \<Rightarrow> account_error + User" where
  "NewUserWithHash newID now username passwordHash =
     (let user = \<lparr> User_ID = newID, User_Username = TrimSpace username,
                    User_PasswordHash = passwordHash, User_CreatedAt = now \<rparr>
      in case User_validateInvariants user of
           Some err \<Rightarrow> Inl err
         | None \<Rightarrow> Inr user)"

definition ValidatePassword :: "bcrypt \<Rightarrow> User \<Rightarrow> string \<Rightarrow> bool" where
  "ValidatePassword bc u plainPassword = CompareHashAndPassword bc (User_PasswordHash u) plainPassword"

definition ValidatePasswordHash :: "bcrypt \<Rightarrow> string \<Rightarrow> string \<Rightarrow> bool" where
  "ValidatePasswordHash bc plainPassword hash = CompareHashAndPassword bc hash plainPassword"

section \<open>SQLite storage adapter (pkg/storage/sqlite)\<close>

subsection \<open>Error classification (db.go)\<close>

function containsAt :: "string \<Rightarrow> string \<Rightarrow> nat \<Rightarrow> bool" where
  "containsAt s substr start =
     (if start \<ge> length s then False
      else if start + length substr > length s then containsAt s substr (start + 1)
      else if take (length substr) (drop start s) = substr then True
      else containsAt s substr (start + 1))"
  by pat_completeness auto
termination
  by (relation "measure (\<lambda>(s, substr, start). length s - start)") auto

definition contains :: "string \<Rightarrow> string \<Rightarrow> bool" where
  "contains s substr =
     (length s \<ge> length substr \<and>
      (s = substr \<or> length substr = 0 \<or>
       (length s > length substr \<and>
        (take (length substr) s = substr \<or>
         drop (length s - length substr) s = substr \<or>
         containsAt s substr 1))))"

text \<open>The classifiers read the message of the error the driver returned.\<close>

definition IsDuplicateKeyError :: "string \<Rightarrow> bool" where
  "IsDuplicateKeyError msg =
     (contains msg ''UNIQUE constraint failed'' \<or> contains msg ''duplicate key'')"

definition IsForeignKeyError :: "string \<Rightarrow> bool" where
  "IsForeignKeyError msg =
     (contains msg ''FOREIGN KEY constraint failed'' \<or> contains msg ''foreign key'')"

datatype sqlite_error =
    ErrNotFound
  | ErrDuplicateKey
  | ErrForeignKey
  | SchoolInvariantValidationFailed school_error
  | FailedStatement string
  | ReconstructLocationFailed domain_error
  | ReconstructAddressFailed domain_error
  | AdminFromDatabaseFailed account_error
  | InvalidCredentials

subsection \<open>The tables of initializeSchema\<close>

text \<open>
  The database engine is outside the repository; what the adapter relies on is the schema
  that \<^verbatim>\<open>initializeSchema\<close> creates. A table is the list of its rows, a nullable column
  holds an option. An \<^verbatim>\<open>INSERT\<close> is refused with the engine's message when it would
  break a constraint of the schema:
  \<^item> \<^verbatim>\<open>schools\<close>: \<^verbatim>\<open>id TEXT PRIMARY KEY\<close> and
    \<^verbatim>\<open>UNIQUE(name, address_city, address_state)\<close>. The columns have the default
    collation, which compares text byte by byte, and a \<^verbatim>\<open>NULL\<close> never equals anything;
  \<^item> \<^verbatim>\<open>teachers\<close>: \<^verbatim>\<open>id TEXT PRIMARY KEY\<close>, \<^verbatim>\<open>email TEXT UNIQUE\<close> and
    \<^verbatim>\<open>school_id TEXT REFERENCES schools(id)\<close>, enforced since the connection sets
    \<^verbatim>\<open>foreign_keys = ON\<close>;
  \<^item> \<^verbatim>\<open>admins\<close>: \<^verbatim>\<open>id TEXT PRIMARY KEY\<close> and \<^verbatim>\<open>username TEXT UNIQUE\<close>.
  A timestamp is read back as it was written, and the context of every call is live.
\<close>

record school_row =
  s_id :: string
  s_name :: string
  s_address_street :: "string option"
  s_address_city :: "string option"
  s_address_state :: "string option"
  s_address_zip_code :: "string option"
  s_location_latitude :: "real option"
  s_location_longitude :: "real option"
  s_location_county :: "string option"
  s_location_region :: "string option"
  s_created_at :: time
  s_updated_at :: time

record teacher_row =
  t_id :: string
  t_email :: string
  t_first_name :: string
  t_last_name :: string
  t_school_id :: string
  t_grade_level :: string
  t_wishlist_url :: string
  t_status :: string
  t_created_at :: time
  t_updated_at :: time

record admin_row =
  a_id :: string
  a_username :: string
  a_password_hash :: string
  a_created_at :: time

record database =
  schools_table :: "school_row list"
  teachers_table :: "teacher_row list"
  admins_table :: "admin_row list"

definition empty_database :: database where
  "empty_database = \<lparr> schools_table = [], teachers_table = [], admins_table = [] \<rparr>"

definition same_unique_triple :: "school_row \<Rightarrow> school_row \<Rightarrow> bool" where
  "same_unique_triple r r' =
     (s_name r = s_name r' \<and>
      s_address_city r \<noteq> None \<and> s_address_city r = s_address_city r' \<and>
      s_address_state r \<noteq> None \<and> s_address_state r = s_address_state r')"

definition insert_school :: "school_row \<Rightarrow> database \<Rightarrow> string + database" where
  "insert_school row db =
     (if list_ex (\<lambda>r. s_id r = s_id row) (schools_table db)
        then Inl ''UNIQUE constraint failed: schools.id''
      else if list_ex (same_unique_triple row) (schools_table db)
        then Inl ''UNIQUE constraint failed: schools.name, schools.address_city, schools.address_state''
      else Inr (db\<lparr> schools_table := schools_table db @ [row] \<rparr>))"

definition insert_teacher :: "teacher_row \<Rightarrow> database \<Rightarrow> string + database" where
  "insert_teacher row db =
     (if list_ex (\<lambda>r. t_id r = t_id row) (teachers_table db)
        then Inl ''UNIQUE constraint failed: teachers.id''
      else if list_ex (\<lambda>r. t_email r = t_email row) (teachers_table db)
        then Inl ''UNIQUE constraint failed: teachers.email''
      else if \<not> list_ex (\<lambda>r. s_id r = t_school_id row) (schools_table db)
        then Inl ''FOREIGN KEY constraint failed''
      else Inr (db\<lparr> teachers_table := teachers_table db @ [row] \<rparr>))"

definition insert_admin :: "admin_row \<Rightarrow> database \<Rightarrow> string + database" where
  "insert_admin row db =
     (if list_ex (\<lambda>r. a_id r = a_id row) (admins_table db)
        then Inl ''UNIQUE constraint failed: admins.id''
      else if list_ex (\<lambda>r. a_username r = a_username row) (admins_table db)
        then Inl ''UNIQUE constraint failed: admins.username''
      else Inr (db\<lparr> admins_table := admins_table db @ [row] \<rparr>))"

subsection \<open>School repository (school_repository.go)\<close>

definition school_to_row :: "School \<Rightarrow> school_row" where
  "school_to_row school =
     \<lparr> s_id = School_ID school,
       s_name = Name school,
       s_address_street = Some (Street (Address school)),
       s_address_city = Some (City (Address school)),
       s_address_state = Some (State (Address school)),
       s_address_zip_code = Some (ZipCode (Address school)),
       s_location_latitude = Some (Latitude (Location (Address school))),
       s_location_longitude = Some (Longitude (Location (Address school))),
       s_location_county = Some (County (Location (Address school))),
       s_location_region = Some (Region (Location (Address school))),
       s_created_at = School_CreatedAt school,
       s_updated_at = School_UpdatedAt school \<rparr>"

definition SchoolRepository_Create :: "database \<Rightarrow> School \<Rightarrow> sqlite_error option \<times> database" where
  "SchoolRepository_Create db school =
     (case ValidateInvariants school of
        Some err \<Rightarrow> (Some (SchoolInvariantValidationFailed err), db)
      | None \<Rightarrow>
          (case insert_school (school_to_row school) db of
             Inl msg \<Rightarrow>
               (if IsDuplicateKeyError msg then (Some ErrDuplicateKey, db)
                else (Some (FailedStatement msg), db))
           | Inr db' \<Rightarrow> (None, db')))"

text \<open>
  \<^verbatim>\<open>sql.NullString\<close> and \<^verbatim>\<open>sql.NullFloat64\<close> give the zero value for a
  \<^verbatim>\<open>NULL\<close> column.
\<close>

definition NullString_String :: "string option \<Rightarrow> string" where
  "NullString_String v = (case v of None \<Rightarrow> [] | Some x \<Rightarrow> x)"

definition NullFloat64_Float64 :: "real option \<Rightarrow> real" where
  "NullFloat64_Float64 v = (case v of None \<Rightarrow> 0 | Some x \<Rightarrow> x)"

definition SchoolRepository_GetByID :: "database \<Rightarrow> string \<Rightarrow> sqlite_error + School" where
  "SchoolRepository_GetByID db ident =
     (case find (\<lambda>r. s_id r = ident) (schools_table db) of
        None \<Rightarrow> Inl ErrNotFound
      | Some r \<Rightarrow>
          (case NewLocation (NullFloat64_Float64 (s_location_latitude r))
                            (NullFloat64_Float64 (s_location_longitude r))
                            (NullString_String (s_location_county r))
                            (NullString_String (s_location_region r)) of
             Inl err \<Rightarrow> Inl (ReconstructLocationFailed err)
           | Inr location \<Rightarrow>
               (case NewAddress (NullString_String (s_address_street r))
                                (NullString_String (s_address_city r))
                                (NullString_String (s_address_state r))
                                (NullString_String (s_address_zip_code r))
                                location of
                  Inl err \<Rightarrow> Inl (ReconstructAddressFailed err)
                | Inr address \<Rightarrow>
                    Inr \<lparr> School_ID = s_id r, Name = s_name r, Address = address,
                          School_CreatedAt = s_created_at r,
                          School_UpdatedAt = s_updated_at r \<rparr>)))"

subsection \<open>Teacher repository (teacher_repository.go)\<close>

definition teacher_to_row :: "Teacher \<Rightarrow> teacher_row" where
  "teacher_to_row teacher =
     \<lparr> t_id = ID teacher,
       t_email = Email teacher,
       t_first_name = FirstName teacher,
       t_last_name = LastName teacher,
       t_school_id = SchoolID teacher,
       t_grade_level = GradeLevel teacher,
       t_wishlist_url = WishlistURL teacher,
       t_status = Status teacher,
       t_created_at = CreatedAt teacher,
       t_updated_at = UpdatedAt teacher \<rparr>"

definition TeacherRepository_Create :: "database \<Rightarrow> Teacher \<Rightarrow> sqlite_error option \<times> database" where
  "TeacherRepository_Create db teacher =
     (case insert_teacher (teacher_to_row teacher) db of
        Inl msg \<Rightarrow>
          (if IsDuplicateKeyError msg then (Some ErrDuplicateKey, db)
           else if IsForeignKeyError msg then (Some ErrForeignKey, db)
           else (Some (FailedStatement msg), db))
      | Inr db' \<Rightarrow> (None, db'))"

definition TeacherRepository_GetByID :: "database \<Rightarrow> string \<Rightarrow> sqlite_error + Teacher" where
  "TeacherRepository_GetByID db ident =
     (case find (\<lambda>r. t_id r = ident) (teachers_table db) of
        None \<Rightarrow> Inl ErrNotFound
      | Some r \<Rightarrow>
          Inr \<lparr> ID = t_id r, Email = t_email r, FirstName = t_first_name r,
                LastName = t_last_name r, SchoolID = t_school_id r,
                GradeLevel = t_grade_level r, WishlistURL = t_wishlist_url r,
                Status = t_status r, CreatedAt = t_created_at r,
                UpdatedAt = t_updated_at r \<rparr>)"

subsection \<open>Admin repository (admin_repository.go)\<close>

text \<open>
  The adapter calls \<^verbatim>\<open>admin.NewAdminWithHash\<close> and the method
  \<^verbatim>\<open>ValidatePassword\<close> of \<^verbatim>\<open>Admin\<close>; the source under internal/admin declares
  neither, so both are parameters of the model.
\<close>

type_synonym admin_constructor = "string \<Rightarrow> string \<Rightarrow> account_error + Admin"

type_synonym password_validator = "Admin \<Rightarrow> string \<Rightarrow> bool"

definition AdminRepository_Create :: "database \<Rightarrow> Admin \<Rightarrow> sqlite_error option \<times> database" where
  "AdminRepository_Create db adminUser =
     (case insert_admin \<lparr> a_id = Admin_ID adminUser, a_username = Username adminUser,
                          a_password_hash = PasswordHash adminUser,
                          a_created_at = Admin_CreatedAt adminUser \<rparr> db of
        Inl msg \<Rightarrow>
          (if IsDuplicateKeyError msg then (Some ErrDuplicateKey, db)
           else (Some (FailedStatement msg), db))
      | Inr db' \<Rightarrow> (None, db'))"

definition GetByUsername :: "admin_constructor \<Rightarrow> database \<Rightarrow> string \<Rightarrow> sqlite_error + Admin" where
  "GetByUsername newAdminWithHash db username =
     (case find (\<lambda>r. a_username r = username) (admins_table db) of
        None \<Rightarrow> Inl ErrNotFound
      | Some r \<Rightarrow>
          (case newAdminWithHash (a_username r) (a_password_hash r) of
             Inl err \<Rightarrow> Inl (AdminFromDatabaseFailed err)
           | Inr adminUser \<Rightarrow>
               Inr (adminUser\<lparr> Admin_ID := a_id r, Admin_CreatedAt := a_created_at r \<rparr>)))"

definition ValidateCredentials ::
  "admin_constructor \<Rightarrow> password_validator \<Rightarrow> database \<Rightarrow> string \<Rightarrow> string \<Rightarrow> sqlite_error + Admin" where
  "ValidateCredentials newAdminWithHash validatePassword db username password =
     (case GetByUsername newAdminWithHash db username of
        Inl err \<Rightarrow> Inl InvalidCredentials
      | Inr adminUser \<Rightarrow>
          if \<not> validatePassword adminUser password then Inl InvalidCredentials
          else Inr adminUser)"

section \<open>Example values\<close>

definition approvedTeacher :: Teacher where
  "approvedTeacher = exampleTeacher\<lparr> Status := TeacherStatusApproved \<rparr>"

definition namelessTeacher :: Teacher where
  "namelessTeacher = exampleTeacher\<lparr> FirstName := [] \<rparr>"

definition newTeacher :: Teacher where
  "newTeacher =
     \<lparr> ID = ''t-2'', Email = ''teacher@example.com'', FirstName = ''John'', LastName = ''Doe'',
       SchoolID = ''school-123'', GradeLevel = ''5th Grade'', WishlistURL = [],
       Status = TeacherStatusPending, CreatedAt = 3, UpdatedAt = 3 \<rparr>"

definition springfield :: Address where
  "springfield =
     \<lparr> Street = ''123 Main St'', City = ''Springfield'', State = ''IL'', ZipCode = ''62701'',
       Location = \<lparr> Latitude = 39.78, Longitude = - 89.65, County = ''Sangamon'',
                    Region = ''Midwest'' \<rparr> \<rparr>"

definition streetOnly :: Address where
  "streetOnly =
     \<lparr> Street = ''456 Oak Ave'', City = [], State = [], ZipCode = [],
       Location = \<lparr> Latitude = 0, Longitude = 0, County = [], Region = [] \<rparr> \<rparr>"

definition albany :: Address where
  "albany =
     \<lparr> Street = ''456 Oak Ave'', City = ''Albany'', State = ''NY'', ZipCode = ''12207'',
       Location = \<lparr> Latitude = 42.65, Longitude = - 73.75, County = ''Albany'',
                    Region = ''Northeast'' \<rparr> \<rparr>"

text \<open>The zero \<^verbatim>\<open>Address{}\<close>, which \<^verbatim>\<open>NewAddress\<close> returns beside its error.\<close>

definition emptyAddress :: Address where
  "emptyAddress =
     \<lparr> Street = [], City = [], State = [], ZipCode = [],
       Location = \<lparr> Latitude = 0, Longitude = 0, County = [], Region = [] \<rparr> \<rparr>"

definition lincolnHigh :: School where
  "lincolnHigh = \<lparr> School_ID = ''school-123'', Name = ''Lincoln High'', Address = springfield,
                    School_CreatedAt = 1, School_UpdatedAt = 1 \<rparr>"

definition washingtonHigh :: School where
  "washingtonHigh = \<lparr> School_ID = ''school-456'', Name = ''Washington High'',
                       Address = springfield, School_CreatedAt = 2, School_UpdatedAt = 2 \<rparr>"

text \<open>A second object with the identity of \<open>lincolnHigh\<close> and the name of \<open>washingtonHigh\<close>.\<close>

definition renamedLincoln :: School where
  "renamedLincoln = lincolnHigh\<lparr> Name := ''Washington High'', School_UpdatedAt := 3 \<rparr>"

definition lincolnUpperCase :: School where
  "lincolnUpperCase = \<lparr> School_ID = ''school-789'', Name = ''LINCOLN HIGH'',
                         Address = springfield, School_CreatedAt = 2, School_UpdatedAt = 2 \<rparr>"

definition longStateSchool :: School where
  "longStateSchool = lincolnHigh\<lparr> Address := springfield\<lparr> State := ''Illinois'' \<rparr> \<rparr>"

definition exampleHeap :: heap where
  "exampleHeap = (\<lambda>p. lincolnHigh)(1 := lincolnHigh, 2 := washingtonHigh, 3 := renamedLincoln)"

definition twoSchools :: InMemorySchoolRepository where
  "twoSchools =
     snd (InMemory_Create exampleHeap
            (snd (InMemory_Create exampleHeap NewInMemorySchoolRepository 1)) 2)"

definition oneSchool :: database where
  "oneSchool = snd (SchoolRepository_Create empty_database lincolnHigh)"

text \<open>A stand-in for the hash comparison of bcrypt, used to run the model on examples.\<close>

definition exampleCompare :: "string \<Rightarrow> string \<Rightarrow> bool" where
  "exampleCompare hash password = (hash = ''$2a$10$'' @ rev password)"

definition exampleValidatePassword :: password_validator where
  "exampleValidatePassword a password = exampleCompare (PasswordHash a) password"

definition storedAdmin :: Admin where
  "storedAdmin = \<lparr> Admin_ID = ''a-1'', Username = ''validuser'',
                    PasswordHash = ''$2a$10$drowssaptcerroc'', Admin_CreatedAt = 4 \<rparr>"

definition oneAdmin :: database where
  "oneAdmin = snd (AdminRepository_Create empty_database storedAdmin)"

section \<open>Teacher: status transitions and the wishlist URL\<close>

lemma TrimSpace_blank: "list_all isSpace s \<Longrightarrow> TrimSpace s = []"
  by (induction s) (simp_all add: TrimSpace_def)

lemma example_email_matches: "emailRegex_MatchString ''teacher@example.com''"
  by code_simp

lemma validateInvariants_status:
  "validateInvariants parse t = None \<Longrightarrow> IsValid (Status t)"
  by (simp add: validateInvariants_def split: if_splits)

lemma status_distinct:
  "TeacherStatusPending \<noteq> TeacherStatusApproved"
  "TeacherStatusPending \<noteq> TeacherStatusRejected"
  "TeacherStatusApproved \<noteq> TeacherStatusRejected"
  by (simp_all add: TeacherStatusPending_def TeacherStatusApproved_def TeacherStatusRejected_def)

text \<open>
  What \<^verbatim>\<open>validateInvariants\<close> checks once the wishlist URL is empty: the status is
  only required to be one of the three values, also when it is \<open>approved\<close>.
\<close>

lemma validateInvariants_no_wishlist:
  "validateInvariants parse (t\<lparr> WishlistURL := [], UpdatedAt := now \<rparr>) =
     (if Email t = [] then Some EmailRequired
      else if \<not> emailRegex_MatchString (Email t) then Some EmailFormatInvalid
      else if FirstName t = [] then Some FirstNameRequired
      else if LastName t = [] then Some LastNameRequired
      else if SchoolID t = [] then Some SchoolIDRequired
      else if \<not> IsValid (Status t) then Some InvalidTeacherStatus
      else None)"
  by (simp add: validateInvariants_def)

text \<open>
  On every teacher that satisfies the invariants, whatever its status, a blank URL is
  accepted and stored.
\<close>

lemma UpdateWishlistURL_blank:
  assumes "list_all isSpace url" and "validateInvariants parse t = None"
  shows "UpdateWishlistURL parse now url t = (None, t\<lparr> WishlistURL := [], UpdatedAt := now \<rparr>)"
  using assms
  by (simp add: UpdateWishlistURL_def TrimSpace_blank validateWishlistURL_def
        validateInvariants_no_wishlist)
     (simp add: validateInvariants_def split: if_splits)

text \<open>
  C1. The claim: on an approved teacher, \<^verbatim>\<open>UpdateWishlistURL\<close> with an empty or
  blank URL returns an error and leaves the wishlist URL unchanged. The source run on the
  approved example teacher, with any URL parser and at any instant: the call returns no
  error for the empty and for the blank URL, the stored URL becomes empty while the status
  stays \<open>approved\<close>, and \<^verbatim>\<open>validateInvariants\<close> accepts the result.
\<close>

theorem UpdateWishlistURL_empties_approved:
  "UpdateWishlistURL parse now [] approvedTeacher =
     (None, approvedTeacher\<lparr> WishlistURL := [], UpdatedAt := now \<rparr>) \<and>
   UpdateWishlistURL parse now ''   '' approvedTeacher =
     (None, approvedTeacher\<lparr> WishlistURL := [], UpdatedAt := now \<rparr>) \<and>
   Status approvedTeacher = TeacherStatusApproved \<and>
   WishlistURL approvedTeacher = ''https://www.amazon.com/hz/wishlist/ls/ABC123'' \<and>
   validateInvariants parse (approvedTeacher\<lparr> WishlistURL := [], UpdatedAt := now \<rparr>) = None"
proof -
  have blank: "TrimSpace ''   '' = []" "TrimSpace [] = []"
    by (simp_all add: TrimSpace_def isSpace_def)
  show ?thesis
    by (simp add: UpdateWishlistURL_def blank validateWishlistURL_def validateInvariants_def
          approvedTeacher_def exampleTeacher_def example_email_matches IsValid_def)
qed

text \<open>
  C2, as the claim states it, fails on a pending teacher with a wishlist URL whose first
  name is empty (the state \<^verbatim>\<open>UpdateProfile\<close> leaves behind when it is given an empty
  first name): \<^verbatim>\<open>Approve\<close> returns an error, and the status has become \<open>approved\<close>.
\<close>

theorem Approve_nameless_counterexample:
  "Status namelessTeacher = TeacherStatusPending \<and>
   WishlistURL namelessTeacher \<noteq> [] \<and>
   fst (Approve exampleParse 2 namelessTeacher) = Some FirstNameRequired \<and>
   Status (snd (Approve exampleParse 2 namelessTeacher)) = TeacherStatusApproved \<and>
   Status (snd (Approve exampleParse 2 namelessTeacher)) \<noteq> Status namelessTeacher"
  by code_simp

text \<open>
  C2, amended. For every teacher that satisfies \<^verbatim>\<open>validateInvariants\<close>,
  \<^verbatim>\<open>Approve\<close> succeeds if and only if the status is \<open>pending\<close> and the wishlist URL is
  not empty, and when it fails the teacher is unchanged.
\<close>

theorem Approve_valid_teacher:
  assumes "validateInvariants parse t = None"
  shows "(fst (Approve parse now t) = None \<longleftrightarrow>
            Status t = TeacherStatusPending \<and> WishlistURL t \<noteq> []) \<and>
         (fst (Approve parse now t) \<noteq> None \<longrightarrow> snd (Approve parse now t) = t)"
proof -
  have valid: "IsValid (Status t)"
    using assms by (rule validateInvariants_status)
  have after:
    "validateInvariants parse (t\<lparr> Status := TeacherStatusApproved, UpdatedAt := now \<rparr>) = None"
    using assms valid
    by (simp add: validateInvariants_def IsValid_def split: if_splits)
  show ?thesis
    using valid after status_distinct
    by (auto simp: Approve_def IsValid_def Let_def)
qed

theorem Approve_valid_teacher_witness:
  "validateInvariants exampleParse exampleTeacher = None \<and>
   Status exampleTeacher = TeacherStatusPending \<and> WishlistURL exampleTeacher \<noteq> [] \<and>
   fst (Approve exampleParse 5 exampleTeacher) = None \<and>
   validateInvariants exampleParse approvedTeacher = None \<and>
   fst (Approve exampleParse 5 approvedTeacher) \<noteq> None \<and>
   snd (Approve exampleParse 5 approvedTeacher) = approvedTeacher"
proof -
  have h1: "validateInvariants exampleParse exampleTeacher = None"
    by code_simp
  have h2: "validateInvariants exampleParse approvedTeacher = None"
    by code_simp
  have s1: "Status exampleTeacher = TeacherStatusPending \<and> WishlistURL exampleTeacher \<noteq> []"
    by (simp add: exampleTeacher_def)
  have s2: "Status approvedTeacher \<noteq> TeacherStatusPending"
    using status_distinct by (simp add: approvedTeacher_def)
  show ?thesis
    using h1 h2 s1 s2 Approve_valid_teacher [OF h1, of 5] Approve_valid_teacher [OF h2, of 5]
    by simp
qed

text \<open>
  C6. The statuses \<open>approved\<close> and \<open>rejected\<close> are terminal: on a teacher in one of them
  \<^verbatim>\<open>Approve\<close> and \<^verbatim>\<open>Reject\<close> both return an error and leave the teacher, and so
  its status, as it was; and a teacher that \<^verbatim>\<open>NewTeacher\<close> returns is \<open>pending\<close>.
\<close>

theorem terminal_statuses:
  "(Status t = TeacherStatusApproved \<or> Status t = TeacherStatusRejected \<longrightarrow>
      fst (Approve parse now t) \<noteq> None \<and> snd (Approve parse now t) = t \<and>
      Status (snd (Approve parse now t)) = Status t \<and>
      fst (Reject parse now t) \<noteq> None \<and> snd (Reject parse now t) = t \<and>
      Status (snd (Reject parse now t)) = Status t) \<and>
   (NewTeacher parse newID now email firstName lastName schoolID gradeLevel = Inr t' \<longrightarrow>
      Status t' = TeacherStatusPending)"
  by (auto simp: Approve_def Reject_def NewTeacher_def Let_def split: option.splits)

theorem terminal_statuses_witness:
  "Status approvedTeacher = TeacherStatusApproved \<and>
   fst (Approve exampleParse 3 approvedTeacher) \<noteq> None \<and>
   Status (snd (Approve exampleParse 3 approvedTeacher)) = TeacherStatusApproved \<and>
   fst (Reject exampleParse 3 approvedTeacher) \<noteq> None \<and>
   Status (snd (Reject exampleParse 3 approvedTeacher)) = TeacherStatusApproved \<and>
   NewTeacher exampleParse ''t-2'' 3 '' Teacher@Example.com '' ''John'' ''Doe'' ''school-123''
     ''5th Grade'' = Inr newTeacher \<and>
   Status newTeacher = TeacherStatusPending"
proof -
  have a: "Status approvedTeacher = TeacherStatusApproved"
    by (simp add: approvedTeacher_def)
  have n: "NewTeacher exampleParse ''t-2'' 3 '' Teacher@Example.com '' ''John'' ''Doe''
             ''school-123'' ''5th Grade'' = Inr newTeacher"
    by code_simp
  show ?thesis
    using a n
      terminal_statuses [where t = approvedTeacher and parse = exampleParse and now = 3
        and newID = "''t-2''" and email = "'' Teacher@Example.com ''" and firstName = "''John''"
        and lastName = "''Doe''" and schoolID = "''school-123''" and gradeLevel = "''5th Grade''"
        and t' = newTeacher]
    by simp
qed

text \<open>
  C10. Frame of the teacher mutators: \<^verbatim>\<open>Approve\<close>, \<^verbatim>\<open>Reject\<close>,
  \<^verbatim>\<open>UpdateWishlistURL\<close> and \<^verbatim>\<open>UpdateProfile\<close> leave the identity, the email, the
  school reference and the creation time as they were, whether they return an error or
  not. \<^verbatim>\<open>Approve\<close> and \<^verbatim>\<open>Reject\<close> change at most the status and the update time,
  \<^verbatim>\<open>UpdateWishlistURL\<close> at most the wishlist URL and the update time,
  \<^verbatim>\<open>UpdateProfile\<close> at most the two names, the grade level and the update time:
  putting the old values of these fields back gives the teacher the call started from.
\<close>

theorem teacher_mutators_frame:
  "ID (snd (Approve parse now t)) = ID t \<and>
   Email (snd (Approve parse now t)) = Email t \<and>
   SchoolID (snd (Approve parse now t)) = SchoolID t \<and>
   CreatedAt (snd (Approve parse now t)) = CreatedAt t \<and>
   (snd (Approve parse now t))\<lparr> Status := Status t, UpdatedAt := UpdatedAt t \<rparr> = t \<and>
   ID (snd (Reject parse now t)) = ID t \<and>
   Email (snd (Reject parse now t)) = Email t \<and>
   SchoolID (snd (Reject parse now t)) = SchoolID t \<and>
   CreatedAt (snd (Reject parse now t)) = CreatedAt t \<and>
   (snd (Reject parse now t))\<lparr> Status := Status t, UpdatedAt := UpdatedAt t \<rparr> = t \<and>
   ID (snd (UpdateWishlistURL parse now url t)) = ID t \<and>
   Email (snd (UpdateWishlistURL parse now url t)) = Email t \<and>
   SchoolID (snd (UpdateWishlistURL parse now url t)) = SchoolID t \<and>
   CreatedAt (snd (UpdateWishlistURL parse now url t)) = CreatedAt t \<and>
   (snd (UpdateWishlistURL parse now url t))
      \<lparr> WishlistURL := WishlistURL t, UpdatedAt := UpdatedAt t \<rparr> = t \<and>
   ID (snd (UpdateProfile parse now firstName lastName gradeLevel t)) = ID t \<and>
   Email (snd (UpdateProfile parse now firstName lastName gradeLevel t)) = Email t \<and>
   SchoolID (snd (UpdateProfile parse now firstName lastName gradeLevel t)) = SchoolID t \<and>
   CreatedAt (snd (UpdateProfile parse now firstName lastName gradeLevel t)) = CreatedAt t \<and>
   (snd (UpdateProfile parse now firstName lastName gradeLevel t))
      \<lparr> FirstName := FirstName t, LastName := LastName t, GradeLevel := GradeLevel t,
        UpdatedAt := UpdatedAt t \<rparr> = t"
  by (simp add: Approve_def Reject_def UpdateWishlistURL_def UpdateProfile_def Let_def
        split: option.splits)

section \<open>School: mutators\<close>

lemma lincolnHigh_valid: "ValidateInvariants lincolnHigh = None"
  by (simp add: ValidateInvariants_def lincolnHigh_def springfield_def IsEmpty_def TrimSpace_def
        isSpace_def)

lemma dropWhile_rev_dropWhile:
  "dropWhile P (rev (dropWhile P (rev (dropWhile P xs)))) =
     rev (dropWhile P (rev (dropWhile P xs)))"
proof -
  define ys where "ys = dropWhile P xs"
  define zs where "zs = dropWhile P (rev ys)"
  have split: "ys = rev zs @ rev (takeWhile P (rev ys))"
    using takeWhile_dropWhile_id [of P "rev ys"] unfolding zs_def
    by (metis rev_append rev_rev_ident)
  show ?thesis
  proof (cases "rev zs")
    case Nil
    then show ?thesis unfolding ys_def [symmetric] zs_def [symmetric] by simp
  next
    case (Cons a as)
    with split obtain rest where "ys = a # rest" by simp
    then have "hd ys = a" "ys \<noteq> []" by simp_all
    then have "\<not> P a" unfolding ys_def using hd_dropWhile by metis
    with Cons show ?thesis unfolding ys_def [symmetric] zs_def [symmetric] by simp
  qed
qed

text \<open>Trimming a trimmed string changes nothing.\<close>

lemma TrimSpace_idem: "TrimSpace (TrimSpace s) = TrimSpace s"
  by (simp add: TrimSpace_def dropWhile_rev_dropWhile)

text \<open>An address that \<^verbatim>\<open>NewAddress\<close> returns has a city and a state and is not empty.\<close>

lemma NewAddress_built:
  assumes "NewAddress (Street a) (City a) (State a) (ZipCode a) (Location a) = Inr a"
  shows "TrimSpace (City a) \<noteq> [] \<and> TrimSpace (State a) \<noteq> [] \<and> \<not> IsEmpty a"
proof -
  from assms have v: "Address_validate \<lparr> Street = TrimSpace (Street a), City = TrimSpace (City a),
      State = TrimSpace (State a), ZipCode = TrimSpace (ZipCode a), Location = Location a \<rparr> = None"
    and eq: "\<lparr> Street = TrimSpace (Street a), City = TrimSpace (City a),
      State = TrimSpace (State a), ZipCode = TrimSpace (ZipCode a), Location = Location a \<rparr> = a"
    by (auto simp: NewAddress_def Let_def split: option.splits)
  from v have c: "TrimSpace (City a) \<noteq> []" and s: "TrimSpace (State a) \<noteq> []"
    by (auto simp: Address_validate_def split: if_splits)
  from eq have "City a = TrimSpace (City a)"
    by (metis Address.select_convs(2))
  with c have "City a \<noteq> []" by simp
  then have "\<not> IsEmpty a" by (simp add: IsEmpty_def)
  with c s show ?thesis by simp
qed

text \<open>
  C5, as the claim states it, fails. On a school that satisfies the invariant,
  \<^verbatim>\<open>UpdateAddress\<close> accepts an address written as a struct literal with a street and
  neither city nor state, although the invariant does not hold on the new value. On the
  school this leaves behind, \<^verbatim>\<open>UpdateName\<close> accepts a name although the invariant
  does not hold on the new value either.
\<close>

theorem UpdateAddress_street_only_counterexample:
  "ValidateInvariants lincolnHigh = None \<and>
   fst (UpdateAddress 2 streetOnly lincolnHigh) = None \<and>
   ValidateInvariants (snd (UpdateAddress 2 streetOnly lincolnHigh)) = Some AddressMustHaveCity \<and>
   fst (UpdateName 3 ''Washington High'' (snd (UpdateAddress 2 streetOnly lincolnHigh))) = None \<and>
   ValidateInvariants
     (snd (UpdateName 3 ''Washington High'' (snd (UpdateAddress 2 streetOnly lincolnHigh)))) =
     Some AddressMustHaveCity"
  by (simp add: lincolnHigh_valid)
     (simp add: UpdateAddress_def UpdateName_def ValidateInvariants_def lincolnHigh_def
        streetOnly_def IsEmpty_def TrimSpace_def isSpace_def)

text \<open>
  C5, amended. For every school that satisfies the aggregate invariant
  (\<^verbatim>\<open>ValidateInvariants\<close> returns no error), every name, and every address that is
  empty or is what \<^verbatim>\<open>NewAddress\<close> returns on its own fields: \<^verbatim>\<open>UpdateName\<close> and
  \<^verbatim>\<open>UpdateAddress\<close> succeed exactly when the whole invariant (name not empty after
  trimming, address not empty, city and state not empty) holds on the new value; on
  success the field is replaced (the name trimmed), the update time is the current
  instant and the school that results satisfies the invariant; on failure the school
  is unchanged.
\<close>

theorem School_updates:
  assumes valid: "ValidateInvariants s = None"
    and arg: "IsEmpty address \<or>
              NewAddress (Street address) (City address) (State address) (ZipCode address)
                (Location address) = Inr address"
  shows
  "(fst (UpdateName now name s) = None \<longleftrightarrow>
      ValidateInvariants (s\<lparr> Name := TrimSpace name \<rparr>) = None) \<and>
   (fst (UpdateName now name s) = None \<longrightarrow>
      snd (UpdateName now name s) = s\<lparr> Name := TrimSpace name, School_UpdatedAt := now \<rparr> \<and>
      ValidateInvariants (snd (UpdateName now name s)) = None) \<and>
   (fst (UpdateName now name s) \<noteq> None \<longrightarrow> snd (UpdateName now name s) = s) \<and>
   (fst (UpdateAddress now address s) = None \<longleftrightarrow>
      ValidateInvariants (s\<lparr> Address := address \<rparr>) = None) \<and>
   (fst (UpdateAddress now address s) = None \<longrightarrow>
      snd (UpdateAddress now address s) = s\<lparr> Address := address, School_UpdatedAt := now \<rparr> \<and>
      ValidateInvariants (snd (UpdateAddress now address s)) = None) \<and>
   (fst (UpdateAddress now address s) \<noteq> None \<longrightarrow> snd (UpdateAddress now address s) = s)"
proof -
  from valid have nm: "TrimSpace (Name s) \<noteq> []"
    and ad: "\<not> IsEmpty (Address s)" "TrimSpace (City (Address s)) \<noteq> []"
      "TrimSpace (State (Address s)) \<noteq> []"
    by (auto simp: ValidateInvariants_def split: if_splits)
  have name_part:
    "ValidateInvariants (s\<lparr> Name := TrimSpace name \<rparr>) = None \<longleftrightarrow> TrimSpace name \<noteq> []"
    "ValidateInvariants (s\<lparr> Name := TrimSpace name, School_UpdatedAt := now \<rparr>) = None \<longleftrightarrow>
       TrimSpace name \<noteq> []"
    using ad by (simp_all add: ValidateInvariants_def TrimSpace_idem)
  have address_part:
    "ValidateInvariants (s\<lparr> Address := address \<rparr>) = None \<longleftrightarrow> \<not> IsEmpty address"
    "ValidateInvariants (s\<lparr> Address := address, School_UpdatedAt := now \<rparr>) = None \<longleftrightarrow>
       \<not> IsEmpty address"
    using arg nm NewAddress_built [of address]
    by (auto simp: ValidateInvariants_def)
  show ?thesis
    using name_part address_part
    by (simp add: UpdateName_def UpdateAddress_def Let_def)
qed

theorem School_updates_witness:
  "ValidateInvariants lincolnHigh = None \<and>
   NewAddress (Street albany) (City albany) (State albany) (ZipCode albany) (Location albany) =
     Inr albany \<and>
   IsEmpty emptyAddress \<and>
   fst (UpdateName 2 '' Washington High '' lincolnHigh) = None \<and>
   snd (UpdateName 2 '' Washington High '' lincolnHigh) =
     lincolnHigh\<lparr> Name := ''Washington High'', School_UpdatedAt := 2 \<rparr> \<and>
   ValidateInvariants (snd (UpdateName 2 '' Washington High '' lincolnHigh)) = None \<and>
   fst (UpdateName 2 ''  '' lincolnHigh) \<noteq> None \<and>
   ValidateInvariants (lincolnHigh\<lparr> Name := [] \<rparr>) \<noteq> None \<and>
   snd (UpdateName 2 ''  '' lincolnHigh) = lincolnHigh \<and>
   fst (UpdateAddress 2 albany lincolnHigh) = None \<and>
   snd (UpdateAddress 2 albany lincolnHigh) =
     lincolnHigh\<lparr> Address := albany, School_UpdatedAt := 2 \<rparr> \<and>
   ValidateInvariants (snd (UpdateAddress 2 albany lincolnHigh)) = None \<and>
   fst (UpdateAddress 2 emptyAddress lincolnHigh) \<noteq> None \<and>
   ValidateInvariants (lincolnHigh\<lparr> Address := emptyAddress \<rparr>) \<noteq> None \<and>
   snd (UpdateAddress 2 emptyAddress lincolnHigh) = lincolnHigh"
proof -
  have built: "NewAddress (Street albany) (City albany) (State albany) (ZipCode albany)
                 (Location albany) = Inr albany"
    by code_simp
  have empty: "IsEmpty emptyAddress"
    by (simp add: IsEmpty_def emptyAddress_def)
  have t1: "TrimSpace '' Washington High '' = ''Washington High''"
    by (simp add: TrimSpace_def isSpace_def)
  have t2: "TrimSpace ''  '' = []"
    by (simp add: TrimSpace_def isSpace_def)
  have n1: "fst (UpdateName 2 '' Washington High '' lincolnHigh) = None"
    by (simp add: UpdateName_def t1)
  have n2: "fst (UpdateName 2 ''  '' lincolnHigh) \<noteq> None"
    by (simp add: UpdateName_def t2)
  have a1: "fst (UpdateAddress 2 albany lincolnHigh) = None"
    using built NewAddress_built [of albany] by (simp add: UpdateAddress_def)
  have a2: "fst (UpdateAddress 2 emptyAddress lincolnHigh) \<noteq> None"
    using empty by (simp add: UpdateAddress_def)
  note with_built =
    School_updates [OF lincolnHigh_valid disjI2, OF built, of 2 "'' Washington High ''",
      unfolded t1]
  note with_empty =
    School_updates [OF lincolnHigh_valid disjI1, OF empty, of 2 "''  ''", unfolded t2]
  have r1: "snd (UpdateName 2 '' Washington High '' lincolnHigh) =
              lincolnHigh\<lparr> Name := ''Washington High'', School_UpdatedAt := 2 \<rparr> \<and>
            ValidateInvariants (snd (UpdateName 2 '' Washington High '' lincolnHigh)) = None"
    using with_built n1 by blast
  have r2: "ValidateInvariants (lincolnHigh\<lparr> Name := [] \<rparr>) \<noteq> None \<and>
            snd (UpdateName 2 ''  '' lincolnHigh) = lincolnHigh"
    using with_empty n2 by blast
  have r3: "snd (UpdateAddress 2 albany lincolnHigh) =
              lincolnHigh\<lparr> Address := albany, School_UpdatedAt := 2 \<rparr> \<and>
            ValidateInvariants (snd (UpdateAddress 2 albany lincolnHigh)) = None"
    using with_built a1 by blast
  have r4: "ValidateInvariants (lincolnHigh\<lparr> Address := emptyAddress \<rparr>) \<noteq> None \<and>
            snd (UpdateAddress 2 emptyAddress lincolnHigh) = lincolnHigh"
    using with_empty a2 by blast
  show ?thesis
    using lincolnHigh_valid built empty n1 n2 a1 a2 r1 r2 r3 r4 by blast
qed

section \<open>School repositories: uniqueness of the natural key\<close>

subsection \<open>In-memory adapter\<close>

text \<open>Saving a school whose identity is not stored yet: the index is only read.\<close>

lemma Save_new_school_collision:
  assumes "school \<noteq> 0"
    and "schools r (School_ID (h school)) = None"
    and "uniqueCombos r (GetUniqueKey (h school)) = Some other"
    and "School_ID (h other) \<noteq> School_ID (h school)"
  shows "Save h r school =
           (Some (SchoolAlreadyExists (Name (h school)) (City (Address (h school)))
                    (State (Address (h school))) (School_ID (h other))), r)"
  using assms by (simp add: Save_def Let_def)

lemma Save_new_school_stored:
  assumes "school \<noteq> 0"
    and "schools r (School_ID (h school)) = None"
    and "uniqueCombos r (GetUniqueKey (h school)) = None"
  shows "Save h r school =
           (None, \<lparr> schools = (schools r)(School_ID (h school) \<mapsto> school),
                    uniqueCombos = (uniqueCombos r)(GetUniqueKey (h school) \<mapsto> school) \<rparr>)"
  using assms by (simp add: Save_def Let_def)

text \<open>
  Two new schools with different identities and one normalized key: once the first is
  created, creating the second fails and leaves the repository as it is.
\<close>

lemma InMemory_Create_twice_same_key:
  assumes "p \<noteq> 0" "q \<noteq> 0"
    and "School_ID (h p) \<noteq> School_ID (h q)"
    and "schools r (School_ID (h p)) = None" "schools r (School_ID (h q)) = None"
    and "GetUniqueKey (h p) = GetUniqueKey (h q)"
    and "InMemory_Create h r p = (None, r')"
  shows "\<exists>n c s i. InMemory_Create h r' q = (Some (SchoolAlreadyExists n c s i), r')"
  using assms
  by (auto simp: InMemory_Create_def Save_def Let_def split: option.splits if_splits)

text \<open>
  C4. The claim: a \<^verbatim>\<open>Create\<close> or \<^verbatim>\<open>Update\<close> that collides with the natural key
  of a school of another identity fails and leaves the unique-index map as it was. The
  source run on a repository that holds Lincoln High and Washington High of Springfield,
  IL: an \<^verbatim>\<open>Update\<close> with a school object that has the identity of Lincoln High and the
  name of Washington High fails with the already-exists error, and the index entry of
  Lincoln High, which was there before the call, is gone after it, while the primary map
  still holds Lincoln High.
\<close>

theorem Update_collision_drops_index_entry:
  "schools twoSchools ''school-123'' = Some 1 \<and>
   uniqueCombos twoSchools (GetUniqueKey (exampleHeap 1)) = Some 1 \<and>
   uniqueCombos twoSchools (GetUniqueKey (exampleHeap 2)) = Some 2 \<and>
   School_ID (exampleHeap 3) = School_ID (exampleHeap 1) \<and>
   GetUniqueKey (exampleHeap 3) = GetUniqueKey (exampleHeap 2) \<and>
   fst (InMemory_Update exampleHeap twoSchools 3) =
     Some (SchoolAlreadyExists ''Washington High'' ''Springfield'' ''IL'' ''school-456'') \<and>
   uniqueCombos (snd (InMemory_Update exampleHeap twoSchools 3))
     (GetUniqueKey (exampleHeap 1)) = None \<and>
   uniqueCombos (snd (InMemory_Update exampleHeap twoSchools 3))
     (GetUniqueKey (exampleHeap 2)) = Some 2 \<and>
   schools (snd (InMemory_Update exampleHeap twoSchools 3)) ''school-123'' = Some 1"
  by code_simp

text \<open>
  The same update made the way the repository's callers make it, on the stored object
  itself (the heap now holds the renamed school at address 1): \<^verbatim>\<open>Save\<close> reads the
  new key from the stored object, deletes the entry of Washington High under it, finds no
  collision and succeeds. Both keys now lead to the renamed school.
\<close>

lemma Update_in_place_takes_over_key:
  "fst (InMemory_Update (exampleHeap(1 := renamedLincoln)) twoSchools 1) = None \<and>
   uniqueCombos (snd (InMemory_Update (exampleHeap(1 := renamedLincoln)) twoSchools 1))
     ''washington high|springfield|il'' = Some 1 \<and>
   uniqueCombos (snd (InMemory_Update (exampleHeap(1 := renamedLincoln)) twoSchools 1))
     ''lincoln high|springfield|il'' = Some 1"
  by code_simp

subsection \<open>SQLite adapter\<close>

lemma unique_message_is_duplicate:
  "IsDuplicateKeyError ''UNIQUE constraint failed: schools.id''"
  "IsDuplicateKeyError
     ''UNIQUE constraint failed: schools.name, schools.address_city, schools.address_state''"
  by code_simp+

text \<open>
  A school whose name, city and state are those of a stored row, byte for byte, is
  refused with \<^verbatim>\<open>ErrDuplicateKey\<close>.
\<close>

lemma SchoolRepository_Create_same_triple:
  assumes "ValidateInvariants school = None"
    and "list_ex (same_unique_triple (school_to_row school)) (schools_table db)"
  shows "SchoolRepository_Create db school = (Some ErrDuplicateKey, db)"
  using assms
  by (simp add: SchoolRepository_Create_def insert_school_def unique_message_is_duplicate)

text \<open>
  C3. The claim: of two schools whose name, city and state are the same after
  lower-casing and trimming, the second \<^verbatim>\<open>Create\<close> fails with a duplicate-key error.
  The source run on the SQLite adapter with Lincoln High and LINCOLN HIGH, both built by
  \<^verbatim>\<open>NewSchool\<close> on the same address of Springfield, IL: their unique keys are equal,
  and both are created, since the table's constraint compares the stored columns as they
  are.
\<close>

theorem SchoolRepository_Create_case_variants:
  "NewAddress ''123 Main St'' ''Springfield'' ''IL'' ''62701'' (Location springfield) =
     Inr springfield \<and>
   NewSchool (Some ''school-123'') 1 ''Lincoln High'' springfield = Inr lincolnHigh \<and>
   NewSchool (Some ''school-789'') 2 ''LINCOLN HIGH'' springfield = Inr lincolnUpperCase \<and>
   GetUniqueKey lincolnHigh = GetUniqueKey lincolnUpperCase \<and>
   fst (SchoolRepository_Create empty_database lincolnHigh) = None \<and>
   fst (SchoolRepository_Create (snd (SchoolRepository_Create empty_database lincolnHigh))
          lincolnUpperCase) = None"
  by code_simp

section \<open>Repositories: Create followed by GetByID\<close>

lemma find_append_new:
  "\<not> list_ex P xs \<Longrightarrow> P x \<Longrightarrow> find P (xs @ [x]) = Some x"
  by (induction xs) simp_all

lemma find_absent: "\<not> list_ex P xs \<Longrightarrow> find P xs = None"
  by (induction xs) simp_all

lemma insert_school_Inr:
  "insert_school row db = Inr db' \<Longrightarrow>
     \<not> list_ex (\<lambda>r. s_id r = s_id row) (schools_table db) \<and>
     db' = db\<lparr> schools_table := schools_table db @ [row] \<rparr>"
  by (auto simp: insert_school_def split: if_splits)

lemma insert_teacher_Inr:
  "insert_teacher row db = Inr db' \<Longrightarrow>
     \<not> list_ex (\<lambda>r. t_id r = t_id row) (teachers_table db) \<and>
     db' = db\<lparr> teachers_table := teachers_table db @ [row] \<rparr>"
  by (auto simp: insert_teacher_def split: if_splits)

lemma SchoolRepository_Create_ok:
  assumes "SchoolRepository_Create db school = (None, db')"
  shows "find (\<lambda>r. s_id r = School_ID school) (schools_table db') = Some (school_to_row school)"
proof -
  from assms have ins: "insert_school (school_to_row school) db = Inr db'"
    by (auto simp: SchoolRepository_Create_def split: option.splits sum.splits if_splits)
  have ident: "s_id (school_to_row school) = School_ID school"
    by (simp add: school_to_row_def)
  from insert_school_Inr [OF ins] ident show ?thesis
    by (simp add: find_append_new)
qed

lemma TeacherRepository_Create_ok:
  assumes "TeacherRepository_Create db teacher = (None, db')"
  shows "find (\<lambda>r. t_id r = ID teacher) (teachers_table db') = Some (teacher_to_row teacher)"
proof -
  from assms have ins: "insert_teacher (teacher_to_row teacher) db = Inr db'"
    by (auto simp: TeacherRepository_Create_def split: sum.splits if_splits)
  have ident: "t_id (teacher_to_row teacher) = ID teacher"
    by (simp add: teacher_to_row_def)
  from insert_teacher_Inr [OF ins] ident show ?thesis
    by (simp add: find_append_new)
qed

lemma school_round_trip:
  assumes created: "SchoolRepository_Create db school = (None, db')"
    and loc: "NewLocation (Latitude (Location (Address school)))
                (Longitude (Location (Address school))) (County (Location (Address school)))
                (Region (Location (Address school))) = Inr (Location (Address school))"
    and addr: "NewAddress (Street (Address school)) (City (Address school))
                 (State (Address school)) (ZipCode (Address school))
                 (Location (Address school)) = Inr (Address school)"
  shows "SchoolRepository_GetByID db' (School_ID school) = Inr school"
  using SchoolRepository_Create_ok [OF created] loc addr
  by (simp add: SchoolRepository_GetByID_def school_to_row_def NullString_String_def
        NullFloat64_Float64_def)

lemma teacher_round_trip:
  assumes "TeacherRepository_Create db teacher = (None, db')"
  shows "TeacherRepository_GetByID db' (ID teacher) = Inr teacher"
  using TeacherRepository_Create_ok [OF assms]
  by (simp add: TeacherRepository_GetByID_def teacher_to_row_def)

lemma in_memory_round_trip:
  assumes "InMemory_Create h r school = (None, r')"
  shows "InMemory_GetByID r' (School_ID (h school)) = Inr school"
  using assms
  by (auto simp: InMemory_Create_def InMemory_GetByID_def GetByID_Legacy_def Save_def Let_def
        split: if_splits option.splits)

text \<open>
  C8, as the claim states it, fails on the SQLite adapter: the school that
  \<^verbatim>\<open>NewSchool\<close> builds on an address whose state is written out passes
  \<^verbatim>\<open>ValidateInvariants\<close> and is created, and \<^verbatim>\<open>GetByID\<close> then returns an error,
  because it rebuilds the address with \<^verbatim>\<open>NewAddress\<close>, which wants two letters.
\<close>

theorem GetByID_long_state_counterexample:
  "NewSchool (Some ''school-123'') 1 ''Lincoln High'' (springfield\<lparr> State := ''Illinois'' \<rparr>) =
     Inr longStateSchool \<and>
   ValidateInvariants longStateSchool = None \<and>
   fst (SchoolRepository_Create empty_database longStateSchool) = None \<and>
   SchoolRepository_GetByID (snd (SchoolRepository_Create empty_database longStateSchool))
     (School_ID longStateSchool) = Inl (ReconstructAddressFailed StateNotTwoLetters)"
  by code_simp

text \<open>
  C8, amended. After a successful \<^verbatim>\<open>Create\<close>, \<^verbatim>\<open>GetByID\<close> with the same identity
  returns the aggregate that was created, equal in every field,
  \<^item> in the SQLite school repository for every school whose address and location are
    what \<^verbatim>\<open>NewAddress\<close> and \<^verbatim>\<open>NewLocation\<close> return on their own fields (text
    trimmed, a state of two characters, a well-formed zip code, coordinates in range);
  \<^item> in the in-memory school repository for every school, where \<^verbatim>\<open>GetByID\<close> returns
    the pointer that was saved;
  \<^item> in the SQLite teacher repository for every teacher.
\<close>

theorem Create_then_GetByID:
  "(SchoolRepository_Create db school = (None, db') \<and>
    NewLocation (Latitude (Location (Address school))) (Longitude (Location (Address school)))
      (County (Location (Address school))) (Region (Location (Address school))) =
      Inr (Location (Address school)) \<and>
    NewAddress (Street (Address school)) (City (Address school)) (State (Address school))
      (ZipCode (Address school)) (Location (Address school)) = Inr (Address school) \<longrightarrow>
    SchoolRepository_GetByID db' (School_ID school) = Inr school) \<and>
   (InMemory_Create h r p = (None, r') \<longrightarrow> InMemory_GetByID r' (School_ID (h p)) = Inr p) \<and>
   (TeacherRepository_Create db teacher = (None, db'') \<longrightarrow>
    TeacherRepository_GetByID db'' (ID teacher) = Inr teacher)"
  using school_round_trip [of db school db'] in_memory_round_trip [of h r p r']
    teacher_round_trip [of db teacher db'']
  by blast

theorem Create_then_GetByID_witness:
  "fst (SchoolRepository_Create empty_database lincolnHigh) = None \<and>
   SchoolRepository_GetByID oneSchool ''school-123'' = Inr lincolnHigh \<and>
   fst (InMemory_Create exampleHeap NewInMemorySchoolRepository 1) = None \<and>
   InMemory_GetByID (snd (InMemory_Create exampleHeap NewInMemorySchoolRepository 1))
     ''school-123'' = Inr 1 \<and>
   fst (TeacherRepository_Create oneSchool exampleTeacher) = None \<and>
   TeacherRepository_GetByID (snd (TeacherRepository_Create oneSchool exampleTeacher)) ''t-1'' =
     Inr exampleTeacher"
proof -
  have c1: "SchoolRepository_Create empty_database lincolnHigh = (None, oneSchool)"
    by code_simp
  have l: "NewLocation (Latitude (Location (Address lincolnHigh)))
             (Longitude (Location (Address lincolnHigh)))
             (County (Location (Address lincolnHigh)))
             (Region (Location (Address lincolnHigh))) = Inr (Location (Address lincolnHigh))"
    by code_simp
  have a: "NewAddress (Street (Address lincolnHigh)) (City (Address lincolnHigh))
             (State (Address lincolnHigh)) (ZipCode (Address lincolnHigh))
             (Location (Address lincolnHigh)) = Inr (Address lincolnHigh)"
    by code_simp
  have f2: "fst (InMemory_Create exampleHeap NewInMemorySchoolRepository 1) = None"
    by code_simp
  then have c2: "InMemory_Create exampleHeap NewInMemorySchoolRepository 1 =
              (None, snd (InMemory_Create exampleHeap NewInMemorySchoolRepository 1))"
    by (simp add: prod_eq_iff)
  have f3: "fst (TeacherRepository_Create oneSchool exampleTeacher) = None"
    by code_simp
  then have c3: "TeacherRepository_Create oneSchool exampleTeacher =
              (None, snd (TeacherRepository_Create oneSchool exampleTeacher))"
    by (simp add: prod_eq_iff)
  have i1: "School_ID lincolnHigh = ''school-123''" "School_ID (exampleHeap 1) = ''school-123''"
    by (simp_all add: lincolnHigh_def exampleHeap_def)
  have i2: "ID exampleTeacher = ''t-1''"
    by (simp add: exampleTeacher_def)
  note first = Create_then_GetByID [where db = empty_database and school = lincolnHigh
      and db' = oneSchool and h = exampleHeap and r = NewInMemorySchoolRepository and p = 1
      and r' = "snd (InMemory_Create exampleHeap NewInMemorySchoolRepository 1)"
      and teacher = exampleTeacher and db'' = empty_database]
  note second = Create_then_GetByID [where db = oneSchool and school = lincolnHigh
      and db' = oneSchool and h = exampleHeap and r = NewInMemorySchoolRepository and p = 1
      and r' = "snd (InMemory_Create exampleHeap NewInMemorySchoolRepository 1)"
      and teacher = exampleTeacher
      and db'' = "snd (TeacherRepository_Create oneSchool exampleTeacher)"]
  have g1: "SchoolRepository_GetByID oneSchool (School_ID lincolnHigh) = Inr lincolnHigh"
    using first c1 l a by blast
  have g2: "InMemory_GetByID (snd (InMemory_Create exampleHeap NewInMemorySchoolRepository 1))
              (School_ID (exampleHeap 1)) = Inr 1"
    using first c2 by blast
  have g3: "TeacherRepository_GetByID (snd (TeacherRepository_Create oneSchool exampleTeacher))
              (ID exampleTeacher) = Inr exampleTeacher"
    using second c3 by blast
  show ?thesis
    using c1 f2 f3 g1 g2 g3 i1 i2 by simp
qed

section \<open>Admin: passwords and credentials\<close>

lemma NewAdmin_PasswordHash:
  "NewAdmin newID now username password = Inr a \<Longrightarrow> PasswordHash a = password"
  by (auto simp: NewAdmin_def Let_def split: option.splits)

text \<open>
  \<^verbatim>\<open>NewUser\<close> stores what the hashing function returns for the password, and
  \<^verbatim>\<open>ValidatePassword\<close> is the comparison function applied to the stored hash.
\<close>

lemma NewUser_PasswordHash:
  "NewUser bc newID now username plainPassword = Inr u \<Longrightarrow>
     plainPassword \<noteq> [] \<and> GenerateFromPassword bc plainPassword = Some (User_PasswordHash u)"
  by (auto simp: NewUser_def HashPassword_def Let_def split: option.splits sum.splits if_splits)

lemma ValidatePassword_compare:
  "ValidatePassword bc u candidate = CompareHashAndPassword bc (User_PasswordHash u) candidate"
  by (simp add: ValidatePassword_def)

text \<open>
  C7. The claim: \<^verbatim>\<open>NewAdmin\<close> hashes the plain-text password it is given, so the
  stored \<^verbatim>\<open>PasswordHash\<close> is never the plain text. The source under internal/admin run
  on the call of the adapter's tests, \<^verbatim>\<open>NewAdmin("testadmin", "correctpassword")\<close>:
  the second argument is stored as it is.
\<close>

theorem NewAdmin_stores_argument:
  "NewAdmin ''a-1'' 4 ''testadmin'' ''correctpassword'' =
     Inr \<lparr> Admin_ID = ''a-1'', Username = ''testadmin'', PasswordHash = ''correctpassword'',
           Admin_CreatedAt = 4 \<rparr>"
  by code_simp

text \<open>
  C9. \<^verbatim>\<open>ValidateCredentials\<close> has one failure value: it returns either the error
  \<open>InvalidCredentials\<close> or an admin. It returns an admin exactly when the lookup by
  username returns that admin and the password validates against it. When no row has the
  username, and when the lookup returns an admin and the password does not validate, the
  result is the same \<open>InvalidCredentials\<close>. When the row exists and the admin is rebuilt
  from it, the admin is returned exactly when the password validates. This holds for
  every constructor \<open>mk\<close> (\<^verbatim>\<open>NewAdminWithHash\<close>) and every password check \<open>vp\<close>.
\<close>

theorem ValidateCredentials_generic_failure:
  "(ValidateCredentials mk vp db username password = Inl InvalidCredentials \<or>
    (\<exists>a. ValidateCredentials mk vp db username password = Inr a)) \<and>
   (ValidateCredentials mk vp db username password = Inr a \<longleftrightarrow>
      GetByUsername mk db username = Inr a \<and> vp a password) \<and>
   (\<not> list_ex (\<lambda>r. a_username r = username) (admins_table db) \<longrightarrow>
      ValidateCredentials mk vp db username password = Inl InvalidCredentials) \<and>
   (GetByUsername mk db username = Inr a \<and> \<not> vp a password \<longrightarrow>
      ValidateCredentials mk vp db username password = Inl InvalidCredentials) \<and>
   (find (\<lambda>r. a_username r = username) (admins_table db) = Some row \<and>
    mk (a_username row) (a_password_hash row) = Inr rebuilt \<longrightarrow>
      (ValidateCredentials mk vp db username password =
         Inr (rebuilt\<lparr> Admin_ID := a_id row, Admin_CreatedAt := a_created_at row \<rparr>) \<longleftrightarrow>
       vp (rebuilt\<lparr> Admin_ID := a_id row, Admin_CreatedAt := a_created_at row \<rparr>) password))"
proof -
  have nf: "\<not> list_ex (\<lambda>r. a_username r = username) (admins_table db) \<Longrightarrow>
            GetByUsername mk db username = Inl ErrNotFound"
    by (simp add: GetByUsername_def find_absent)
  have found: "find (\<lambda>r. a_username r = username) (admins_table db) = Some row \<Longrightarrow>
               mk (a_username row) (a_password_hash row) = Inr rebuilt \<Longrightarrow>
               GetByUsername mk db username =
                 Inr (rebuilt\<lparr> Admin_ID := a_id row, Admin_CreatedAt := a_created_at row \<rparr>)"
    by (simp add: GetByUsername_def)
  show ?thesis
    using nf found
    by (auto simp: ValidateCredentials_def split: sum.splits)
qed

theorem ValidateCredentials_generic_failure_witness:
  "GetByUsername (NewAdmin ''fresh'' 0) oneAdmin ''validuser'' = Inr storedAdmin \<and>
   ValidateCredentials (NewAdmin ''fresh'' 0) exampleValidatePassword oneAdmin
     ''validuser'' ''correctpassword'' = Inr storedAdmin \<and>
   ValidateCredentials (NewAdmin ''fresh'' 0) exampleValidatePassword oneAdmin
     ''validuser'' ''wrongpassword'' = Inl InvalidCredentials \<and>
   ValidateCredentials (NewAdmin ''fresh'' 0) exampleValidatePassword oneAdmin
     ''nonexistent'' ''correctpassword'' = Inl InvalidCredentials"
proof -
  have g: "GetByUsername (NewAdmin ''fresh'' 0) oneAdmin ''validuser'' = Inr storedAdmin"
    by code_simp
  have ok: "exampleValidatePassword storedAdmin ''correctpassword''"
    by code_simp
  have wrong: "\<not> exampleValidatePassword storedAdmin ''wrongpassword''"
    by code_simp
  have absent: "\<not> list_ex (\<lambda>r. a_username r = ''nonexistent'') (admins_table oneAdmin)"
    by code_simp
  show ?thesis
    using g ok wrong absent
      ValidateCredentials_generic_failure [where mk = "NewAdmin ''fresh'' 0"
        and vp = exampleValidatePassword and db = oneAdmin and username = "''validuser''"
        and password = "''correctpassword''" and a = storedAdmin]
      ValidateCredentials_generic_failure [where mk = "NewAdmin ''fresh'' 0"
        and vp = exampleValidatePassword and db = oneAdmin and username = "''validuser''"
        and password = "''wrongpassword''" and a = storedAdmin]
      ValidateCredentials_generic_failure [where mk = "NewAdmin ''fresh'' 0"
        and vp = exampleValidatePassword and db = oneAdmin and username = "''nonexistent''"
        and password = "''correctpassword''" and a = storedAdmin]
    by simp
qed

end
